theory Spec2Isabelle
  imports Complex_Main
begin

section \<open>JavaScript values used by the panel\<close>

text \<open>
  A JavaScript number, as far as the code compares it: \<open>NaN\<close>, the two infinities and
  the finite values. The finite values are read as reals (\<open>-0\<close> and \<open>0\<close> compare equal in
  JavaScript and are one value here). Only comparison, \<open>Math.max\<close>, \<open>Number.isNaN\<close> and
  the division by a constant are defined on this type; the addition of two numbers, which
  rounds, is left to the host.
\<close>

datatype jsnum = NaN | NegInf | Fin real | PosInf

text \<open>The operator \<open><\<close> on numbers: false whenever an operand is \<open>NaN\<close>.\<close>

fun js_lt :: "jsnum \<Rightarrow> jsnum \<Rightarrow> bool" where
  "js_lt NaN b = False"
| "js_lt a NaN = False"
| "js_lt NegInf b = (b \<noteq> NegInf)"
| "js_lt PosInf b = False"
| "js_lt (Fin x) NegInf = False"
| "js_lt (Fin x) (Fin y) = (x < y)"
| "js_lt (Fin x) PosInf = True"

text \<open>\<open>Number.isNaN(v) ? 0 : v\<close>\<close>

definition nan_to_zero :: "jsnum \<Rightarrow> jsnum" where
  "nan_to_zero v = (if v = NaN then Fin 0 else v)"

section \<open>Metric indicators and composite metrics\<close>

text \<open>
  \<open>DisplayValue\<close> of the host framework, as far as the panel reads it: the text, the
  number, and the optional color, title, prefix and suffix (\<open>None\<close> is \<open>undefined\<close>).
\<close>

record displayValue =
  text_of :: string
  numeric :: jsnum
  color :: "string option"
  title :: "string option"
  prefix :: "string option"
  suffix :: "string option"

text \<open>
  \<open>MetricIndicator\<close>: a display value extended by the fields the style resolver adds.
  An absent \<open>isComposite\<close> is falsy and is \<open>False\<close> here; \<open>valueName\<close> is the title of the
  display value it was made from, which may be absent.
\<close>

record metricIndicator = displayValue +
  metricName :: string
  valueName :: "string option"
  isComposite :: bool
  originalName :: "string option"

text \<open>
  Modelled from the spec: the type \<open>CompositeMetric\<close> of \<open>config/types\<close>, which is not
  among the sources: "a named group of member metric names plus a \<open>showLowestValue\<close>
  flag". The field names are the ones \<open>reduceComposites\<close> reads.
\<close>

record compositeMetric =
  name :: string
  members :: "string list"
  showLowestValue :: bool

text \<open>
  \<open>reduceComposites\<close> mutates the winning indicator object, and that object is an element
  of the \<open>indicators\<close> array. The array is therefore the store here, an indicator object is
  its index, and every step returns the updated array.

  \<open>candidates\<close>: \<open>c.members.flatMap((m) => indicators.filter((i) => i.metricName === m))\<close>.
\<close>

definition candidates :: "metricIndicator list \<Rightarrow> compositeMetric \<Rightarrow> nat list" where
  "candidates indicators c =
     concat (map (\<lambda>m. filter (\<lambda>i. metricName (indicators ! i) = m) [0..<length indicators])
                 (members c))"

text \<open>The value the comparison reads from the indicator object at index \<open>i\<close>.\<close>

abbreviation val :: "metricIndicator list \<Rightarrow> nat \<Rightarrow> jsnum" where
  "val indicators i \<equiv> nan_to_zero (numeric (indicators ! i))"

text \<open>The callback of \<open>candidates.reduce\<close>.\<close>

definition pick :: "metricIndicator list \<Rightarrow> compositeMetric \<Rightarrow> nat \<Rightarrow> nat \<Rightarrow> nat" where
  "pick indicators c prev current =
     (let previousValue = val indicators prev;
          currentValue = val indicators current;
          currentIsLower = js_lt currentValue previousValue
      in if showLowestValue c
         then (if currentIsLower then current else prev)
         else (if currentIsLower then prev else current))"

text \<open>
  \<open>Array.prototype.reduce\<close> without an initial value, on a non-empty array: the first
  element is the first accumulator.
\<close>

definition winner :: "metricIndicator list \<Rightarrow> compositeMetric \<Rightarrow> nat list \<Rightarrow> nat" where
  "winner indicators c cands = foldl (pick indicators c) (hd cands) (tl cands)"

text \<open>
  The callback of \<open>composites.map\<close>: the reference to the relabelled winner (\<open>None\<close> for
  \<open>null\<close>) and the array after the three assignments.
\<close>

definition reduceComposite ::
  "metricIndicator list \<Rightarrow> compositeMetric \<Rightarrow> nat option \<times> metricIndicator list" where
  "reduceComposite indicators c =
     (let cands = candidates indicators c
      in if length cands > 0
         then (let w = winner indicators c cands;
                   compositeIndicator = indicators ! w
               in (Some w,
                   indicators[w := compositeIndicator
                     \<lparr> isComposite := True,
                       originalName := Some (metricName compositeIndicator),
                       metricName := name c \<rparr>]))
         else (None, indicators))"

fun mapComposites ::
  "metricIndicator list \<Rightarrow> compositeMetric list \<Rightarrow> nat option list \<times> metricIndicator list" where
  "mapComposites indicators [] = ([], indicators)"
| "mapComposites indicators (c # cs) =
     (case reduceComposite indicators c of
        (r, indicators') \<Rightarrow>
          (case mapComposites indicators' cs of
             (rs, indicators'') \<Rightarrow> (r # rs, indicators'')))"

text \<open>
  \<open>reduceComposites\<close>: the returned array holds references, so its elements are read in
  the final array; the second component is the \<open>indicators\<close> array as the call leaves it.
\<close>

definition reduceComposites ::
  "metricIndicator list \<Rightarrow> compositeMetric list \<Rightarrow> metricIndicator list \<times> metricIndicator list" where
  "reduceComposites indicators composites =
     (case mapComposites indicators composites of
        (rs, indicators') \<Rightarrow>
          (map (\<lambda>i. indicators' ! i) (concat (map (\<lambda>r. case r of None \<Rightarrow> [] | Some i \<Rightarrow> [i]) rs)),
           indicators'))"

text \<open>
  Example inputs: three members with the values 5, 2 and 8, and two members without a
  number.
\<close>

definition ex_ind :: "string \<Rightarrow> jsnum \<Rightarrow> metricIndicator" where
  "ex_ind n v = \<lparr> text_of = '''', numeric = v, color = None, title = None, prefix = None,
     suffix = None, metricName = n, valueName = None, isComposite = False, originalName = None \<rparr>"



definition nan_indicators :: "metricIndicator list" where
  "nan_indicators = [ex_ind ''a'' NaN, ex_ind ''b'' NaN]"

definition nan_composite :: "bool \<Rightarrow> compositeMetric" where
  "nan_composite low = \<lparr> name = ''both'', members = [''a'', ''b''], showLowestValue = low \<rparr>"

section \<open>Strings and errors\<close>

text \<open>
  Strings are lists of characters. The code compares, joins and searches strings, and reads
  single characters only where it looks for ASCII white space, digits and signs, so a
  character stands for a code unit. \<open>starts_with\<close> is \<open>String.prototype.startsWith\<close> and
  \<open>includes_str\<close> is \<open>String.prototype.includes\<close> (the empty string is included in every
  string).
\<close>

definition starts_with :: "string \<Rightarrow> string \<Rightarrow> bool" where
  "starts_with s p = (take (length p) s = p)"

fun includes_str :: "string \<Rightarrow> string \<Rightarrow> bool" where
  "includes_str [] p = (p = [])"
| "includes_str (c # cs) p = (starts_with (c # cs) p \<or> includes_str cs p)"

text \<open>
  A thrown value: an \<open>Error\<close> object with its name (\<open>Error\<close>, \<open>TypeError\<close>,
  \<open>SyntaxError\<close>) and message, or any other value, kept as its string conversion.
\<close>

datatype jserror = JsError string string | Thrown string

text \<open>The string conversion a template literal applies: \<open>Error.prototype.toString\<close>.\<close>

fun error_to_string :: "jserror \<Rightarrow> string" where
  "error_to_string (JsError nm msg) =
     (if nm = [] then msg else if msg = [] then nm else nm @ '': '' @ msg)"
| "error_to_string (Thrown s) = s"

section \<open>The document\<close>

text \<open>
  A DOM node is an element (local name, attributes in order, children) or a text node.
  The document is one tree, and an element is identified by its path from the root (the
  child indices). The class list and the inline style are the attributes \<open>class\<close> and
  \<open>style\<close>. Elements carry no bound d3 datum: the diagram is written into the container as
  markup.
\<close>

datatype node = Elem string "(string \<times> string) list" "node list" | Text string

type_synonym path = "nat list"

fun tagName :: "node \<Rightarrow> string option" where
  "tagName (Elem t a ks) = Some t"
| "tagName (Text s) = None"

fun attributes :: "node \<Rightarrow> (string \<times> string) list" where
  "attributes (Elem t a ks) = a"
| "attributes (Text s) = []"

fun childNodes :: "node \<Rightarrow> node list" where
  "childNodes (Elem t a ks) = ks"
| "childNodes (Text s) = []"

fun node_at :: "node \<Rightarrow> path \<Rightarrow> node option" where
  "node_at n [] = Some n"
| "node_at n (i # p) =
     (if i < length (childNodes n) then node_at (childNodes n ! i) p else None)"

text \<open>\<open>update_at f p doc\<close>: the document with \<open>f\<close> applied to the node at \<open>p\<close>.\<close>

fun update_at :: "(node \<Rightarrow> node) \<Rightarrow> path \<Rightarrow> node \<Rightarrow> node" where
  "update_at f [] n = f n"
| "update_at f (i # p) (Text s) = Text s"
| "update_at f (i # p) (Elem t a ks) =
     (if i < length ks then Elem t a (ks[i := update_at f p (ks ! i)]) else Elem t a ks)"

text \<open>The proper descendants of a node in document order, as paths relative to it.\<close>

fun subpaths :: "node \<Rightarrow> path list" and subpaths_from :: "nat \<Rightarrow> node list \<Rightarrow> path list" where
  "subpaths (Text s) = []"
| "subpaths (Elem t a ks) = subpaths_from 0 ks"
| "subpaths_from i [] = []"
| "subpaths_from i (k # ks) = ([i] # map ((#) i) (subpaths k)) @ subpaths_from (Suc i) ks"

text \<open>\<open>Node.textContent\<close>, which d3's \<open>selection.text()\<close> reads.\<close>

fun textContent :: "node \<Rightarrow> string" and textContents :: "node list \<Rightarrow> string" where
  "textContent (Text s) = s"
| "textContent (Elem t a ks) = textContents ks"
| "textContents [] = []"
| "textContents (k # ks) = textContent k @ textContents ks"

definition getAttribute :: "node \<Rightarrow> string \<Rightarrow> string option" where
  "getAttribute n a = map_of (attributes n) a"

text \<open>\<open>setAttribute\<close>: an attribute that exists keeps its place, a new one is added last.\<close>

fun set_attr :: "string \<Rightarrow> string \<Rightarrow> (string \<times> string) list \<Rightarrow> (string \<times> string) list" where
  "set_attr a v [] = [(a, v)]"
| "set_attr a v ((b, w) # rest) = (if a = b then (a, v) # rest else (b, w) # set_attr a v rest)"

fun setAttribute :: "string \<Rightarrow> string \<Rightarrow> node \<Rightarrow> node" where
  "setAttribute a v (Elem t as ks) = Elem t (set_attr a v as) ks"
| "setAttribute a v (Text s) = Text s"

fun appendChild :: "node \<Rightarrow> node \<Rightarrow> node" where
  "appendChild c (Elem t a ks) = Elem t a (ks @ [c])"
| "appendChild c (Text s) = Text s"

fun replaceChildren :: "node list \<Rightarrow> node \<Rightarrow> node" where
  "replaceChildren cs (Elem t a ks) = Elem t a cs"
| "replaceChildren cs (Text s) = Text s"

text \<open>
  The class list: the tokens of the \<open>class\<close> attribute, split at ASCII white space, without
  repetitions. \<open>classList.add\<close> adds the token when it is new and writes the list back
  joined by single spaces.
\<close>

definition is_space :: "char \<Rightarrow> bool" where
  "is_space c = (c \<in> set [CHR 0x20, CHR 0x09, CHR 0x0A, CHR 0x0C, CHR 0x0D])"

fun tokens_from :: "string \<Rightarrow> string \<Rightarrow> string list" where
  "tokens_from cur [] = (if cur = [] then [] else [cur])"
| "tokens_from cur (c # cs) =
     (if is_space c then (if cur = [] then tokens_from [] cs else cur # tokens_from [] cs)
      else tokens_from (cur @ [c]) cs)"

definition classList :: "node \<Rightarrow> string list" where
  "classList n = (case getAttribute n ''class'' of None \<Rightarrow> [] | Some s \<Rightarrow> remdups (tokens_from [] s))"

fun join_spaces :: "string list \<Rightarrow> string" where
  "join_spaces [] = []"
| "join_spaces [t] = t"
| "join_spaces (t # ts) = t @ '' '' @ join_spaces ts"

definition classList_add :: "string \<Rightarrow> node \<Rightarrow> node" where
  "classList_add c n =
     setAttribute ''class''
       (join_spaces (if c \<in> set (classList n) then classList n else classList n @ [c])) n"

text \<open>
  The selectors the code writes as literals, as tests on an element: a type selector, a
  type selector with a class, a list of classes, a list of type selectors.
\<close>

definition is_element :: "node \<Rightarrow> bool" where
  "is_element n = (tagName n \<noteq> None)"

definition is_tag :: "string \<Rightarrow> node \<Rightarrow> bool" where
  "is_tag t n = (tagName n = Some t)"

definition has_class :: "string \<Rightarrow> node \<Rightarrow> bool" where
  "has_class c n = (is_element n \<and> c \<in> set (classList n))"

text \<open>
  \<open>holds doc P p\<close>: there is a node at \<open>p\<close> and it passes the test. \<open>descendants\<close> are the
  paths below \<open>p\<close> in document order, \<open>querySelectorAll\<close> and \<open>querySelector\<close> the matching
  elements among them and the first of them.
\<close>

definition holds :: "node \<Rightarrow> (node \<Rightarrow> bool) \<Rightarrow> path \<Rightarrow> bool" where
  "holds doc P p = (case node_at doc p of None \<Rightarrow> False | Some n \<Rightarrow> P n)"

definition descendants :: "node \<Rightarrow> path \<Rightarrow> path list" where
  "descendants doc p =
     (case node_at doc p of None \<Rightarrow> [] | Some n \<Rightarrow> map ((@) p) (subpaths n))"

definition querySelectorAll :: "node \<Rightarrow> path \<Rightarrow> (node \<Rightarrow> bool) \<Rightarrow> path list" where
  "querySelectorAll doc p P = filter (holds doc P) (descendants doc p)"

definition querySelector :: "node \<Rightarrow> path \<Rightarrow> (node \<Rightarrow> bool) \<Rightarrow> path option" where
  "querySelector doc p P = find (holds doc P) (descendants doc p)"

text \<open>
  \<open>Element.closest\<close>: the element itself or its nearest ancestor passing the test; the walk
  goes up to the root of the document, past any container.
\<close>

fun closest :: "node \<Rightarrow> (node \<Rightarrow> bool) \<Rightarrow> path \<Rightarrow> path option" where
  "closest doc P p =
     (if holds doc P p then Some p
      else if p = [] then None
      else closest doc P (butlast p))"

declare closest.simps [simp del]

section \<open>What the browser and the host provide\<close>

text \<open>
  The style resolver calls into the browser. What the browser computes from a string, or
  from the layout, is a parameter of the model:
  \<^item> \<open>parseSelector\<close>: the selector parser behind \<open>querySelector\<close>, for the one selector the
    code builds from data. \<open>None\<close> is a \<open>SyntaxError\<close>; a parsed selector is a test on the
    element at a path of a document;
  \<^item> \<open>parseFragment\<close>: the HTML parser behind the \<open>innerHTML\<close> setter;
  \<^item> \<open>renderedText\<close>: the \<open>innerText\<close> getter, which depends on the layout;
  \<^item> \<open>numberToString\<close>: the conversion of a number in a template literal and in
    \<open>Number.prototype.toString\<close>;
  \<^item> \<open>styleSetProperty\<close>: setting one property of the inline style. It gets the current
    \<open>style\<close> attribute, the property and the value, and returns the new attribute, or
    \<open>None\<close> when the declaration is rejected and nothing changes.
  \<open>diagramStyleFormatter\<close> is a module of this repository that is not among the sources;
  it is a parameter as well.
\<close>

record browser =
  parseSelector :: "string \<Rightarrow> (node \<Rightarrow> path \<Rightarrow> bool) option"
  parseFragment :: "string \<Rightarrow> node list"
  renderedText :: "node \<Rightarrow> path \<Rightarrow> string"
  numberToString :: "jsnum \<Rightarrow> string"
  styleSetProperty :: "string option \<Rightarrow> string \<Rightarrow> string \<Rightarrow> string option"
  diagramStyleFormatter :: "string \<Rightarrow> string \<Rightarrow> string"

text \<open>
  A statement that may throw leaves the document as it is at the throw: the outcome of a
  statement is the error thrown, if any, and the document.
\<close>

type_synonym outcome = "jserror option \<times> node"

definition and_then :: "outcome \<Rightarrow> (node \<Rightarrow> outcome) \<Rightarrow> outcome" where
  "and_then r f = (case r of (None, doc) \<Rightarrow> f doc | (Some e, doc) \<Rightarrow> (Some e, doc))"

text \<open>\<open>xs.forEach(f)\<close> for a callback that changes the document and may throw.\<close>

fun for_each :: "('a \<Rightarrow> node \<Rightarrow> outcome) \<Rightarrow> 'a list \<Rightarrow> node \<Rightarrow> outcome" where
  "for_each f [] doc = (None, doc)"
| "for_each f (x # xs) doc = and_then (f x doc) (for_each f xs)"

definition attr_at :: "node \<Rightarrow> path \<Rightarrow> string \<Rightarrow> string option" where
  "attr_at doc p a = (case node_at doc p of None \<Rightarrow> None | Some n \<Rightarrow> getAttribute n a)"

definition style_set :: "browser \<Rightarrow> string \<Rightarrow> string \<Rightarrow> node \<Rightarrow> node" where
  "style_set B property v n =
     (case styleSetProperty B (getAttribute n ''style'') property v of
        None \<Rightarrow> n
      | Some s \<Rightarrow> setAttribute ''style'' s n)"

text \<open>\<open>formattedValueToString\<close> of the host framework: prefix, text and suffix.\<close>

definition formattedValueToString :: "'a displayValue_scheme \<Rightarrow> string" where
  "formattedValueToString v =
     (case prefix v of None \<Rightarrow> [] | Some p \<Rightarrow> p) @ text_of v @
     (case suffix v of None \<Rightarrow> [] | Some s \<Rightarrow> s)"

section \<open>Numbers in the resize helper\<close>

text \<open>
  \<open>Number.parseInt(s, 10)\<close>: leading white space is skipped, a sign is read, then the
  decimal digits up to the first other character; no digit gives \<open>NaN\<close>. The value is the
  integer read; the rounding of an integer beyond \<open>2^53\<close> to a double is not modelled.
\<close>

definition is_js_space :: "char \<Rightarrow> bool" where
  "is_js_space c =
     (c \<in> set [CHR 0x09, CHR 0x0A, CHR 0x0B, CHR 0x0C, CHR 0x0D, CHR 0x20, CHR 0xA0])"

definition is_digit :: "char \<Rightarrow> bool" where
  "is_digit c = (c \<in> set ''0123456789'')"

definition digit_value :: "char \<Rightarrow> nat" where
  "digit_value c = of_char c - of_char (CHR ''0'')"

definition decimal :: "string \<Rightarrow> nat" where
  "decimal ds = foldl (\<lambda>n c. 10 * n + digit_value c) 0 ds"

definition parseInt10 :: "string \<Rightarrow> jsnum" where
  "parseInt10 s =
     (let t = dropWhile is_js_space s;
          negative = starts_with t ''-'';
          u = (if starts_with t ''-'' \<or> starts_with t ''+'' then tl t else t);
          z = takeWhile is_digit u
      in if z = [] then NaN
         else Fin (of_int ((if negative then - 1 else 1) * int (decimal z))))"

text \<open>\<open>Math.max\<close> of two numbers: \<open>NaN\<close> when either is.\<close>

definition js_max :: "jsnum \<Rightarrow> jsnum \<Rightarrow> jsnum" where
  "js_max a b = (if a = NaN \<or> b = NaN then NaN else if js_lt a b then b else a)"

text \<open>Division by a positive constant, as in \<open>_minWidth / 2\<close>.\<close>

fun js_div :: "jsnum \<Rightarrow> real \<Rightarrow> jsnum" where
  "js_div (Fin x) k = Fin (x / k)"
| "js_div v k = v"

text \<open>
  Modelled from the spec: the type \<open>NodeSizeOptions\<close> of \<open>config/types\<close>, which is not among
  the sources: the "node-size minimums" \<open>nodeSize.minWidth\<close> and \<open>nodeSize.minHeight\<close>.
\<close>

record nodeSizeOptions =
  minWidth :: jsnum
  minHeight :: jsnum

text \<open>
  The two numbers \<open>resizeGrouping\<close> computes and writes: \<open>_minWidth\<close> and \<open>_minHeight\<close>, each
  from the current attribute of the \<open>foreignObject\<close> (\<open>'1'\<close> when absent or empty) and the
  configured minimum.
\<close>

definition grown :: "string option \<Rightarrow> jsnum \<Rightarrow> jsnum" where
  "grown current minimum =
     js_max (parseInt10 (case current of None \<Rightarrow> ''1'' | Some s \<Rightarrow> if s = [] then ''1'' else s))
            minimum"

text \<open>
  \<open>resizeGrouping\<close>. The argument is a selection or \<open>null\<close>; the node of an empty selection
  is \<open>null\<close>, and the call of \<open>closest\<close> on it throws.
\<close>

definition resizeGrouping :: "browser \<Rightarrow> path list option \<Rightarrow> nodeSizeOptions \<Rightarrow> node \<Rightarrow> outcome" where
  "resizeGrouping B element nodeSize doc =
     (case element of
        None \<Rightarrow> (None, doc)
      | Some [] \<Rightarrow> (Some (JsError ''TypeError'' ''Cannot read properties of null (reading 'closest')''), doc)
      | Some (p # ps) \<Rightarrow>
          (case (closest doc (is_tag ''g'') p,
                 closest doc (\<lambda>n. is_tag ''g'' n \<and> has_class ''label'' n) p,
                 closest doc (is_tag ''foreignObject'') p) of
             (Some closestGroup, Some closestLabelGroup, Some closestForeignObject) \<Rightarrow>
               (let doc1 = update_at (setAttribute ''transform'' []) closestGroup doc;
                    w = grown (attr_at doc1 closestForeignObject ''width'') (minWidth nodeSize);
                    h = grown (attr_at doc1 closestForeignObject ''height'') (minHeight nodeSize);
                    doc2 = update_at (setAttribute ''height'' (numberToString B h)) closestForeignObject doc1;
                    doc3 = update_at (setAttribute ''width'' (numberToString B w)) closestForeignObject doc2
                in (None,
                    update_at (setAttribute ''transform''
                        (''translate(-'' @ numberToString B (js_div w 2) @ '',-'' @
                         numberToString B (js_div h 2) @ '')''))
                      closestLabelGroup doc3))
           | _ \<Rightarrow> (None, doc)))"

section \<open>The five lookups\<close>

text \<open>
  A d3 selection is the list of its elements, in document order. The container is the
  path of the element the lookups search below.

  \<open>selectElementById\<close> builds the selector \<open>[data-id="<id>"]\<close> from the metric name and
  hands it to \<open>querySelector\<close>, which throws a \<open>SyntaxError\<close> on a text that is no selector
  (the wording of its message differs between browsers).
\<close>

definition selectElementById :: "browser \<Rightarrow> node \<Rightarrow> path \<Rightarrow> string \<Rightarrow> jserror + path list" where
  \<open>selectElementById B doc container ident =
     (let selector = ''[data-id="'' @ ident @ ''"]''
      in case parseSelector B selector of
           None \<Rightarrow> Inl (JsError ''SyntaxError'' (selector @ '' is not a valid selector''))
         | Some m \<Rightarrow>
             Inr (case find (\<lambda>q. holds doc is_element q \<and> m doc q)
                            (descendants doc container) of
                    None \<Rightarrow> []
                  | Some q \<Rightarrow> [q]))\<close>

definition selectElementByEdgeLabel :: "node \<Rightarrow> path \<Rightarrow> string \<Rightarrow> path list" where
  "selectElementByEdgeLabel doc container ident =
     querySelectorAll doc container (\<lambda>n. is_tag ''span'' n \<and> textContent n = ident)"

definition selectDivElementByAlias :: "node \<Rightarrow> path \<Rightarrow> string \<Rightarrow> path list" where
  "selectDivElementByAlias doc container alias =
     (case querySelectorAll doc container (\<lambda>n. is_tag ''div'' n \<and> textContent n = alias) of
        [] \<Rightarrow> []
      | nd # rest \<Rightarrow>
          (case closest doc (has_class ''node'') nd of
             Some parentShape \<Rightarrow> [parentShape]
           | None \<Rightarrow> []))"

definition selectTextElementByAlias :: "node \<Rightarrow> path \<Rightarrow> string \<Rightarrow> path list" where
  "selectTextElementByAlias doc container alias =
     querySelectorAll doc container (\<lambda>n. is_tag ''text'' n \<and> textContent n = alias)"

definition selectTextElementContainingAlias :: "node \<Rightarrow> path \<Rightarrow> string \<Rightarrow> path list" where
  "selectTextElementContainingAlias doc container alias =
     querySelectorAll doc container (\<lambda>n. is_tag ''text'' n \<and> includes_str (textContent n) alias)"

fun fetchParentsUntilShapeElementFound :: "node \<Rightarrow> (node \<Rightarrow> bool) \<Rightarrow> path \<Rightarrow> path option" where
  "fetchParentsUntilShapeElementFound doc selector element =
     (if holds doc selector element then Some element
      else if element \<noteq> [] then fetchParentsUntilShapeElementFound doc selector (butlast element)
      else None)"

declare fetchParentsUntilShapeElementFound.simps [simp del]

section \<open>The five paint steps\<close>

text \<open>
  Helpers for selections: every element of a selection gets the same change; an element
  below a node whose children were replaced is detached and no longer in the document.
\<close>

definition on_each :: "(node \<Rightarrow> node) \<Rightarrow> path list \<Rightarrow> node \<Rightarrow> node" where
  "on_each f ps doc = foldl (\<lambda>d p. update_at f p d) doc ps"

definition strictly_below :: "path \<Rightarrow> path \<Rightarrow> bool" where
  "strictly_below q p = (length p < length q \<and> take (length p) q = p)"

definition child_count :: "node \<Rightarrow> path \<Rightarrow> nat" where
  "child_count doc p = (case node_at doc p of None \<Rightarrow> 0 | Some n \<Rightarrow> length (childNodes n))"

text \<open>A truthy string: present and not empty.\<close>

fun truthy :: "string option \<Rightarrow> string option" where
  "truthy None = None"
| "truthy (Some s) = (if s = [] then None else Some s)"

text \<open>The \<open>textContent\<close> setter, which d3's \<open>selection.text(value)\<close> calls.\<close>

definition set_textContent :: "string \<Rightarrow> node \<Rightarrow> node" where
  "set_textContent s = replaceChildren (if s = [] then [] else [Text s])"

definition is_shape :: "node \<Rightarrow> bool" where
  "is_shape n = (is_tag ''rect'' n \<or> is_tag ''circle'' n \<or> is_tag ''polygon'' n \<or> is_tag ''path'' n)"

text \<open>
  \<open>styleD3Shapes\<close>. \<open>shapes\<close> and \<open>div\<close> are selected before anything is written; the
  selection \<open>div\<close> (here \<open>divSel\<close>) holds,
  for every element of the target selection that has one, its first \<open>div\<close> descendant.
\<close>

definition styleD3Shapes ::
  "browser \<Rightarrow> path list \<Rightarrow> metricIndicator \<Rightarrow> bool \<Rightarrow> nodeSizeOptions \<Rightarrow> node \<Rightarrow> outcome" where
  \<open>styleD3Shapes B targetElement indicator useBackground nodeSize doc =
     (let shapes = concat (map (\<lambda>t. querySelectorAll doc t is_shape) targetElement);
          divSel = concat (map (\<lambda>t. case querySelector doc t (is_tag ''div'') of
                                     None \<Rightarrow> [] | Some d \<Rightarrow> [d]) targetElement);
          doc1 = on_each (classList_add ''diagram-value'') divSel doc;
          attached = (case divSel of [] \<Rightarrow> (\<lambda>q. True) | divElement # ds \<Rightarrow> (\<lambda>q. \<not> strictly_below q divElement))
      in and_then
           (case divSel of
              [] \<Rightarrow> (None, doc1)
            | divElement # ds \<Rightarrow>
                and_then (resizeGrouping B (Some divSel) nodeSize doc1)
                  (\<lambda>doc2.
                     let content = renderedText B doc2 divElement @ ''<br/> '' @
                                   formattedValueToString indicator;
                         content' = (if isComposite indicator
                                     then content @ ''<br/>'' @
                                          (case originalName indicator of
                                             None \<Rightarrow> ''undefined'' | Some n \<Rightarrow> n)
                                     else content);
                         doc3 = (if isComposite indicator
                                 then update_at
                                        (style_set B ''margin-top''
                                           (''-'' @ numberToString B (js_div (minHeight nodeSize) 4) @ ''px''))
                                        divElement doc2
                                 else doc2)
                     in (None,
                         update_at
                           (replaceChildren
                              (parseFragment B (''<div style="margin:auto">'' @ content' @ ''</div>'')))
                           divElement doc3)))
           (\<lambda>doc4.
              (None,
               case truthy (color indicator) of
                 None \<Rightarrow> doc4
               | Some c \<Rightarrow>
                   if useBackground
                   then on_each (style_set B ''fill'' c) (filter attached shapes) doc4
                   else on_each (style_set B ''color'' c) (filter attached divSel) doc4)))\<close>

text \<open>\<open>firstElementChild\<close>: the path of the first child that is an element.\<close>

definition firstElementChild :: "node \<Rightarrow> path \<Rightarrow> path option" where
  "firstElementChild doc p =
     (case find (\<lambda>i. holds doc is_element (p @ [i])) [0..<child_count doc p] of
        None \<Rightarrow> None
      | Some i \<Rightarrow> Some (p @ [i]))"

text \<open>
  \<open>styleFlowChartEdgeLabel\<close>. The node of the selection is its first element; the new
  \<open>br\<close> and \<open>span\<close> become the last children of its parent. An element found by a lookup
  lies below the container and has a parent element; the node of an empty selection is
  \<open>null\<close>, and the root element has the document as its parent, which takes no second
  child.
\<close>

definition styleFlowChartEdgeLabel ::
  "browser \<Rightarrow> path list \<Rightarrow> metricIndicator \<Rightarrow> bool \<Rightarrow> nodeSizeOptions \<Rightarrow> node \<Rightarrow> outcome" where
  "styleFlowChartEdgeLabel B targetElement indicator useBackground nodeSize doc =
     (case targetElement of
        [] \<Rightarrow> (Some (JsError ''TypeError'' ''Cannot read properties of null (reading 'parentNode')''), doc)
      | t # ts \<Rightarrow>
          if t = [] then (Some (JsError ''HierarchyRequestError'' ''Only one element on document allowed.''), doc)
          else
            (let edgeParent = butlast t;
                 v = edgeParent @ [Suc (child_count doc edgeParent)];
                 doc1 = update_at (appendChild (Elem ''br'' [] [])) edgeParent doc;
                 doc2 = update_at (appendChild (Elem ''span'' [] [])) edgeParent doc1;
                 doc3 = update_at (classList_add ''diagram-value'') v doc2;
                 doc4 = update_at (replaceChildren (parseFragment B (formattedValueToString indicator))) v doc3
             in and_then (resizeGrouping B (Some [edgeParent]) nodeSize doc4)
                  (\<lambda>doc5.
                     (None,
                      case truthy (color indicator) of
                        None \<Rightarrow> doc5
                      | Some c \<Rightarrow>
                          if useBackground
                          then (let doc6 = update_at (style_set B ''background-color'' c) v doc5
                                in case fetchParentsUntilShapeElementFound doc6
                                          (\<lambda>n. has_class ''node'' n \<and> has_class ''flowchart-label'' n) t of
                                     None \<Rightarrow> doc6
                                   | Some parentShapeElement \<Rightarrow>
                                       (case firstElementChild doc6 parentShapeElement of
                                          None \<Rightarrow> doc6
                                        | Some child \<Rightarrow>
                                            update_at (setAttribute ''style'' (''fill: '' @ c)) child doc6))
                          else update_at (style_set B ''color'' c) v doc5))))"

text \<open>
  \<open>styleTextEdgeLabel\<close>. d3's \<open>selection.each\<close> calls its callback with the element as
  \<open>this\<close> and the element's datum as the first argument. The callback is an arrow function
  that reads its first argument \<open>el\<close>: it gets the datum, which is \<open>undefined\<close> for an element
  without bound data, and \<open>el.getBBox()\<close> throws on the first element of the selection.
  Nothing after that call is reached.
\<close>

definition styleTextEdgeLabel :: "path list \<Rightarrow> metricIndicator \<Rightarrow> bool \<Rightarrow> node \<Rightarrow> outcome" where
  "styleTextEdgeLabel targetElement indicator useBackground doc =
     (case targetElement of
        [] \<Rightarrow> (None, doc)
      | el # els \<Rightarrow>
          (Some (JsError ''TypeError'' ''Cannot read properties of undefined (reading 'getBBox')''), doc))"

text \<open>
  \<open>styleSequenceDiagramEdgeLabel\<close>: every element of the selection gets a new last child
  \<open>tspan\<close>; \<open>spanElement\<close> is the selection of the new elements.
\<close>

definition styleSequenceDiagramEdgeLabel ::
  "browser \<Rightarrow> path list \<Rightarrow> metricIndicator \<Rightarrow> bool \<Rightarrow> nodeSizeOptions \<Rightarrow> node \<Rightarrow> outcome" where
  "styleSequenceDiagramEdgeLabel B targetElement indicator useBackground nodeSize doc =
     (let spanElement = map (\<lambda>t. t @ [child_count doc t]) targetElement;
          doc1 = on_each (appendChild (Elem ''tspan'' [] [])) targetElement doc;
          doc2 = on_each (classList_add ''diagram-value'') spanElement doc1;
          doc3 = on_each (replaceChildren (parseFragment B (formattedValueToString indicator)))
                   spanElement doc2
      in (None,
          case truthy (color indicator) of
            None \<Rightarrow> doc3
          | Some c \<Rightarrow>
              if useBackground
              then on_each (style_set B ''background-color'' c) spanElement doc3
              else on_each (style_set B ''color'' c) spanElement doc3))"

definition injectCustomStyle :: "browser \<Rightarrow> path \<Rightarrow> string \<Rightarrow> string \<Rightarrow> node \<Rightarrow> node" where
  "injectCustomStyle B container diagramStyle diagramId doc =
     (let diagramStyleElement = container @ [child_count doc container];
          doc1 = update_at (appendChild (Elem ''style'' [] [])) container doc
      in update_at (set_textContent (diagramStyleFormatter B diagramStyle diagramId))
           diagramStyleElement doc1)"

section \<open>Options, series and the style resolver\<close>

text \<open>
  Modelled from the spec: the types \<open>DiagramOptions\<close>, \<open>DiagramSeriesModel\<close> and
  \<open>DiagramSeriesValue\<close> of \<open>config/types\<close>, which is not among the sources. The options are
  "diagram content (inline or remote URL), custom style/theme variable overrides (separate
  light/dark palettes, one override set per diagram-type grammar), node-size minimums,
  \<open>useBackground\<close> switch, and legend configuration"; a series "carries a label, a value
  field with optional custom config naming which display value to surface, and an array of
  display-value candidates", and its raw data are value pairs whose second component is a
  number or \<open>null\<close>. The field names are the ones the code reads. A set of theme variables
  is the list of its keys and values, in order.
\<close>

type_synonym themeVariables = "(string \<times> string) list"

record mermaidThemeVariables =
  common :: themeVariables
  classDiagram :: themeVariables
  flowChart :: themeVariables
  sequenceDiagram :: themeVariables
  stateDiagram :: themeVariables
  userJourneyDiagram :: themeVariables

record legendOptions =
  hideEmpty :: bool
  hideZero :: bool

record diagramOptions =
  content :: string
  contentUrl :: "string option"
  useBackground :: bool
  nodeSize :: nodeSizeOptions
  maxWidth :: bool
  composites :: "compositeMetric list option"
  style :: string
  legend :: legendOptions
  mermaidThemeVariablesDark :: mermaidThemeVariables
  mermaidThemeVariablesLight :: mermaidThemeVariables

datatype diagramSeriesValue = Null | Number jsnum

text \<open>
  \<open>custom\<close> is \<open>valueField.config.custom\<close>: \<open>None\<close> when there is no custom config, otherwise
  its \<open>valueName\<close>, which may be absent.
\<close>

record diagramSeriesModel =
  label :: string
  custom :: "string option option"
  info :: "displayValue list option"
  data :: "diagramSeriesValue list list"
  isVisible :: bool

text \<open>
  \<open>processDiagramSeriesModel\<close>: the five lookups in the order of the source, each followed
  by its paint step and \<open>return\<close> when its selection is not empty.
\<close>

definition processDiagramSeriesModel ::
  "browser \<Rightarrow> path \<Rightarrow> metricIndicator \<Rightarrow> diagramOptions \<Rightarrow> node \<Rightarrow> outcome" where
  "processDiagramSeriesModel B container indicator options doc =
     (let key = metricName indicator
      in case selectElementById B doc container key of
           Inl e \<Rightarrow> (Some e, doc)
         | Inr targetElement \<Rightarrow>
             if targetElement \<noteq> []
             then styleD3Shapes B targetElement indicator (useBackground options) (nodeSize options) doc
             else
               (let targetElement = selectElementByEdgeLabel doc container key
                in if targetElement \<noteq> []
                   then styleFlowChartEdgeLabel B targetElement indicator (useBackground options)
                          (nodeSize options) doc
                   else
                     (let targetElement = selectDivElementByAlias doc container key
                      in if targetElement \<noteq> []
                         then styleD3Shapes B targetElement indicator (useBackground options)
                                (nodeSize options) doc
                         else
                           (let targetElement = selectTextElementByAlias doc container key
                            in if targetElement \<noteq> []
                               then styleTextEdgeLabel targetElement indicator (useBackground options) doc
                               else
                                 (let targetElement = selectTextElementContainingAlias doc container key
                                  in if targetElement \<noteq> []
                                     then styleSequenceDiagramEdgeLabel B targetElement indicator
                                            (useBackground options) (nodeSize options) doc
                                     else (None, doc))))))"

text \<open>
  \<open>reduceModels\<close>: a series without custom config is dropped, and so is one whose display
  values hold none with the configured title; the others give a fresh indicator object.
\<close>

definition reduceModels :: "diagramSeriesModel list \<Rightarrow> metricIndicator list" where
  "reduceModels models =
     concat (map (\<lambda>m.
       case custom m of
         None \<Rightarrow> []
       | Some wanted \<Rightarrow>
           (case info m of
              None \<Rightarrow> []
            | Some dvs \<Rightarrow>
                (case find (\<lambda>dv. title dv = wanted) dvs of
                   None \<Rightarrow> []
                 | Some dv \<Rightarrow>
                     [\<lparr> text_of = text_of dv, numeric = numeric dv, color = color dv,
                        title = title dv, prefix = prefix dv, suffix = suffix dv,
                        metricName = label m, valueName = title dv,
                        isComposite = False, originalName = None \<rparr>]))) models)"

text \<open>
  \<open>updateDiagramStyle\<close>. \<open>el\<close> is the path of the container. The first \<open>svg\<close> below it is
  the root of all lookups; it lies below \<open>el\<close>, so it has a parent element.
\<close>

definition updateDiagramStyle ::
  "browser \<Rightarrow> path \<Rightarrow> diagramSeriesModel list \<Rightarrow> diagramOptions \<Rightarrow> string \<Rightarrow> node \<Rightarrow> outcome" where
  "updateDiagramStyle B el models options diagramId doc =
     (let indicators = reduceModels models
      in case querySelector doc el (is_tag ''svg'') of
           None \<Rightarrow> (None, doc)
         | Some svg \<Rightarrow>
             (let doc1 = (if maxWidth options
                          then update_at (style_set B ''max-height'' ''100%'') svg
                                 (update_at (style_set B ''max-width'' ''100%'') svg doc)
                          else doc);
                  doc2 = (if svg \<noteq> [] \<and> \<not> maxWidth options
                          then update_at (setAttribute ''style'' ''overflow-y: scroll'') (butlast svg) doc1
                          else doc1)
              in and_then
                   (for_each (\<lambda>indicator. processDiagramSeriesModel B svg indicator options)
                      indicators doc2)
                   (\<lambda>doc3.
                      and_then
                        (for_each (\<lambda>indicator. processDiagramSeriesModel B svg indicator options)
                           (fst (reduceComposites indicators
                                   (case composites options of None \<Rightarrow> [] | Some cs \<Rightarrow> cs)))
                           doc3)
                        (\<lambda>doc4. (None, injectCustomStyle B el (style options) diagramId doc4)))))"

section \<open>The panel controller\<close>

text \<open>
  What the controller gets from outside: the renderer (\<open>mermaid.initialize\<close> and
  \<open>mermaidAPI.render\<close>, with a state of its own, so that two calls may answer differently),
  the network (\<open>fetch\<close>), \<open>JSON.stringify\<close> on a set of theme variables and the addition of
  two numbers. A render returns the markup and, optionally, a function that binds
  interactivity to the container, or throws.
\<close>

record rendered =
  svg :: string
  bindFunctions :: "(node \<Rightarrow> path \<Rightarrow> outcome) option"

record response =
  ok :: bool
  status :: jsnum
  statusText :: string
  body :: string

record 'r host =
  initialize :: "string \<Rightarrow> 'r \<Rightarrow> 'r"
  render :: "'r \<Rightarrow> string \<Rightarrow> string \<Rightarrow> (jserror + rendered) \<times> 'r"
  fetch :: "string \<Rightarrow> jserror + response"
  stringify :: "themeVariables \<Rightarrow> string"
  numberAdd :: "jsnum \<Rightarrow> jsnum \<Rightarrow> jsnum"

text \<open>
  The props of \<open>DiagramPanelController\<close> that the code below reads: \<open>theme.isDark\<close>, \<open>id\<close>,
  \<open>options\<close>, \<open>data\<close> and \<open>replaceVariables\<close>.
\<close>

record panelProps =
  themeIsDark :: bool
  panelId :: jsnum
  panelOptions :: diagramOptions
  panelData :: "diagramSeriesModel list"
  replaceVariables :: "string \<Rightarrow> string"

text \<open>
  The state a render pass works on: the document, the renderer's state, and the calls of
  \<open>mermaidAPI.render\<close> made so far, each with its diagram id and its definition text.
\<close>

record 'r world =
  document :: node
  renderer :: 'r
  renderCalls :: "(string \<times> string) list"

text \<open>
  \<open>content.match(/%%\{[\s\S]*?\}%%/)\<close> finds a match exactly when some \<open>%%{\<close> is followed,
  anywhere after it, by \<open>}%%\<close>.
\<close>

fun init_block_match :: "string \<Rightarrow> bool" where
  "init_block_match [] = False"
| "init_block_match (c # cs) =
     ((starts_with (c # cs) ''%%{'' \<and> includes_str (drop 3 (c # cs)) ''}%%'') \<or> init_block_match cs)"

text \<open>Object spread \<open>{...a, ...b}\<close>: a key that exists keeps its place and gets the later value.\<close>

definition spread :: "themeVariables list \<Rightarrow> themeVariables" where
  "spread objs = foldl (\<lambda>acc kv. set_attr (fst kv) (snd kv) acc) [] (concat objs)"

definition contentProcessor :: "'r host \<Rightarrow> panelProps \<Rightarrow> string \<Rightarrow> string" where
  "contentProcessor H props contentText =
     (let baseTheme = (if themeIsDark props then ''dark'' else ''base'')
      in if init_block_match contentText then contentText
         else
           (let vars = (if themeIsDark props
                        then mermaidThemeVariablesDark (panelOptions props)
                        else mermaidThemeVariablesLight (panelOptions props));
                overrides = spread [common vars, classDiagram vars, flowChart vars,
                                    sequenceDiagram vars, stateDiagram vars, userJourneyDiagram vars];
                customTheme = ''%%{init: {'' @ [CHR 0x27] @ ''theme'' @ [CHR 0x27] @ '': '' @
                              [CHR 0x27] @ baseTheme @ [CHR 0x27] @ '', '' @
                              [CHR 0x27] @ ''themeVariables'' @ [CHR 0x27] @ '': '' @
                              stringify H overrides @ ''}}%%'' @ [CHR 0x0A]
            in customTheme @ contentText))"

definition getRemoteDiagramDefinition ::
  "browser \<Rightarrow> 'r host \<Rightarrow> panelProps \<Rightarrow> string \<Rightarrow> jserror + string" where
  "getRemoteDiagramDefinition B H props url =
     (case fetch H (replaceVariables props url) of
        Inl e \<Rightarrow> Inl e
      | Inr response \<Rightarrow>
          if \<not> ok response
          then Inl (JsError ''Error''
                 (''Failed to fetch diagram definition: '' @ numberToString B (status response) @
                  '' '' @ statusText response))
          else Inr (body response))"

definition loadDiagramDefinition :: "browser \<Rightarrow> 'r host \<Rightarrow> panelProps \<Rightarrow> jserror + string" where
  "loadDiagramDefinition B H props =
     (case truthy (contentUrl (panelOptions props)) of
        Some url \<Rightarrow> getRemoteDiagramDefinition B H props url
      | None \<Rightarrow> Inr (content (panelOptions props)))"

text \<open>
  One render attempt, the body shared by the inner \<open>try\<close> and its \<open>catch\<close>: render, write the
  markup into the container, bind. The outcome is the error thrown, if any, and the state
  at that point.
\<close>

definition renderInto ::
  "browser \<Rightarrow> 'r host \<Rightarrow> path \<Rightarrow> string \<Rightarrow> string \<Rightarrow> 'r world \<Rightarrow> jserror option \<times> 'r world" where
  "renderInto B H container diagramId definition w =
     (case render H (renderer w) diagramId definition of
        (r, rs) \<Rightarrow>
          (let w1 = w \<lparr> renderer := rs, renderCalls := renderCalls w @ [(diagramId, definition)] \<rparr>
           in case r of
                Inl err \<Rightarrow> (Some err, w1)
              | Inr res \<Rightarrow>
                  (let doc1 = update_at (replaceChildren (parseFragment B (svg res))) container
                                (document w1)
                   in case bindFunctions res of
                        None \<Rightarrow> (None, w1 \<lparr> document := doc1 \<rparr>)
                      | Some bind \<Rightarrow>
                          (case bind doc1 container of
                             (e, doc2) \<Rightarrow> (e, w1 \<lparr> document := doc2 \<rparr>)))))"

definition errorMarkup :: "jserror \<Rightarrow> string" where
  "errorMarkup err =
     ''<div><p>Error rendering diagram. Check the diagram definition</p><p>'' @
     error_to_string err @ ''</p></div>''"

text \<open>
  \<open>initializeMermaid\<close>. \<open>diagramRef\<close> is the path of the container, or \<open>None\<close> when
  \<open>diagramRef.current\<close> is \<open>null\<close>. The result is the error the returned promise is rejected
  with, if any, and the state. The definition is loaded before the outer \<open>try\<close> is entered.
\<close>

definition initializeMermaid ::
  "browser \<Rightarrow> 'r host \<Rightarrow> panelProps \<Rightarrow> path option \<Rightarrow> 'r world \<Rightarrow> jserror option \<times> 'r world" where
  "initializeMermaid B H props diagramRef w =
     (let w0 = w \<lparr> renderer := initialize H (if themeIsDark props then ''dark'' else ''base'')
                                  (renderer w) \<rparr>
      in case diagramRef of
           None \<Rightarrow> (None, w0)
         | Some container \<Rightarrow>
             (case loadDiagramDefinition B H props of
                Inl e \<Rightarrow> (Some e, w0)
              | Inr diagramDefinition \<Rightarrow>
                  (let diagramId = ''diagram-'' @ numberToString B (panelId props);
                       interpolated = replaceVariables props (contentProcessor H props diagramDefinition);
                       rendered = (case renderInto B H container diagramId interpolated w0 of
                                     (None, w1) \<Rightarrow> (None, w1)
                                   | (Some err, w1) \<Rightarrow>
                                       renderInto B H container diagramId diagramDefinition w1);
                       styled = (case rendered of
                                   (Some err, w2) \<Rightarrow> (Some err, w2)
                                 | (None, w2) \<Rightarrow>
                                     (case updateDiagramStyle B container (panelData props)
                                             (panelOptions props) diagramId (document w2) of
                                        (e, doc) \<Rightarrow> (e, w2 \<lparr> document := doc \<rparr>)))
                   in case styled of
                        (None, w3) \<Rightarrow> (None, w3)
                      | (Some err, w3) \<Rightarrow>
                          (None,
                           w3 \<lparr> document :=
                                  update_at (replaceChildren (parseFragment B (errorMarkup err)))
                                    container (document w3) \<rparr>))))"

section \<open>The legend\<close>

text \<open>\<open>current[1]\<close>: the second component of a value pair, \<open>None\<close> (\<open>undefined\<close>) when it is missing.\<close>

fun second :: "'a list \<Rightarrow> 'a option" where
  "second (x # y # rest) = Some y"
| "second xs = None"

text \<open>\<open>current[1] || 0\<close>: a falsy value (\<open>undefined\<close>, \<open>null\<close>, \<open>NaN\<close>, 0) gives 0.\<close>

fun or_zero :: "diagramSeriesValue option \<Rightarrow> jsnum" where
  "or_zero (Some (Number v)) = (if v = NaN \<or> v = Fin 0 then Fin 0 else v)"
| "or_zero v = Fin 0"

definition shouldHideLegendItem ::
  "'r host \<Rightarrow> diagramSeriesValue list list \<Rightarrow> bool \<Rightarrow> bool \<Rightarrow> bool" where
  "shouldHideLegendItem H seriesData hideEmptyFlag hideZeroFlag =
     (let isZeroOnlySeries =
            (foldl (\<lambda>acc current. numberAdd H acc (or_zero (second current))) (Fin 0) seriesData
             = Fin 0);
          isNullOnlySeries =
            (\<not> foldl (\<lambda>acc current. acc \<and> second current \<noteq> Some Null) True seriesData)
      in (hideEmptyFlag \<and> isNullOnlySeries) \<or> (hideZeroFlag \<and> isZeroOnlySeries))"

record vizLegendItem =
  itemLabel :: string
  itemColor :: string
  disabled :: bool
  yAxis :: nat
  getDisplayValues :: "displayValue list"

definition getLegendItems :: "'r host \<Rightarrow> panelProps \<Rightarrow> vizLegendItem list" where
  "getLegendItems H props =
     foldl (\<lambda>acc s.
        if shouldHideLegendItem H (data s) (hideEmpty (legend (panelOptions props)))
             (hideZero (legend (panelOptions props)))
        then acc
        else acc @ [\<lparr> itemLabel = label s, itemColor = [], disabled = (\<not> isVisible s), yAxis = 0,
                       getDisplayValues = (case info s of None \<Rightarrow> [] | Some dvs \<Rightarrow> dvs) \<rparr>])
       [] (panelData props)"

section \<open>An example browser, host and documents\<close>

text \<open>
  The concrete inputs of the examples below. \<open>show_number\<close> prints a number in decimal:
  the integer part, and the fraction digits of a short terminating fraction.
\<close>

definition show_digit :: "nat \<Rightarrow> char" where
  "show_digit d = ''0123456789'' ! d"

fun show_nat :: "nat \<Rightarrow> string" where
  "show_nat n = (if n < 10 then [show_digit n] else show_nat (n div 10) @ [show_digit (n mod 10)])"

declare show_nat.simps [simp del]

fun show_fraction :: "nat \<Rightarrow> real \<Rightarrow> string" where
  "show_fraction k r =
     (if k = 0 \<or> r = 0 then []
      else show_digit (nat \<lfloor>10 * r\<rfloor>) # show_fraction (k - 1) (10 * r - of_int \<lfloor>10 * r\<rfloor>))"

declare show_fraction.simps [simp del]

fun show_number :: "jsnum \<Rightarrow> string" where
  "show_number NaN = ''NaN''"
| "show_number PosInf = ''Infinity''"
| "show_number NegInf = ''-Infinity''"
| "show_number (Fin x) =
     (if x < 0 then ''-'' else []) @ show_nat (nat \<lfloor>\<bar>x\<bar>\<rfloor>) @
     (if \<bar>x\<bar> = of_int \<lfloor>\<bar>x\<bar>\<rfloor> then []
      else ''.'' @ show_fraction 17 (\<bar>x\<bar> - of_int \<lfloor>\<bar>x\<bar>\<rfloor>))"

text \<open>
  The example selector parser accepts \<open>[data-id="v"]\<close> when \<open>v\<close> holds no quote, backslash
  or line break, as the test "the attribute \<open>data-id\<close> is \<open>v\<close>", and rejects every other
  text. The selector built from the name \<open>a"b\<close> is \<open>[data-id="a"b"]\<close>: its string ends at the
  second quote, and what follows is no end of an attribute selector.
\<close>

definition plain_value :: "string \<Rightarrow> bool" where
  "plain_value v = (filter (\<lambda>c. c \<in> set [CHR 0x22, CHR 0x5C, CHR 0x0A, CHR 0x0C, CHR 0x0D]) v = [])"

definition example_parseSelector :: "string \<Rightarrow> (node \<Rightarrow> path \<Rightarrow> bool) option" where
  \<open>example_parseSelector s =
     (let v = take (length s - 12) (drop 10 s)
      in if s = ''[data-id="'' @ v @ ''"]'' \<and> plain_value v
         then Some (\<lambda>doc p. attr_at doc p ''data-id'' = Some v)
         else None)\<close>

text \<open>
  The example fragment parser knows the markup of the examples; any other string without
  \<open><\<close> and \<open>&\<close> is one text node.
\<close>

definition example_parseFragment :: "string \<Rightarrow> node list" where
  \<open>example_parseFragment s =
     (if s = [] then []
      else if s = ''<svg></svg>'' then [Elem ''svg'' [] []]
      else if s = ''<div style="margin:auto">cpu<br/> 42</div>''
      then [Elem ''div'' [(''style'', ''margin:auto'')] [Text ''cpu'', Elem ''br'' [] [], Text '' 42'']]
      else if s = ''<div><p>Error rendering diagram. Check the diagram definition</p><p>Error: Parse error</p></div>''
      then [Elem ''div'' []
              [Elem ''p'' [] [Text ''Error rendering diagram. Check the diagram definition''],
               Elem ''p'' [] [Text ''Error: Parse error'']]]
      else [Text s])\<close>

definition example_browser :: browser where
  "example_browser =
     \<lparr> parseSelector = example_parseSelector,
       parseFragment = example_parseFragment,
       renderedText = (\<lambda>doc p. case node_at doc p of None \<Rightarrow> [] | Some n \<Rightarrow> textContent n),
       numberToString = show_number,
       styleSetProperty = (\<lambda>current property v.
          Some ((case current of None \<Rightarrow> [] | Some s \<Rightarrow> s @ '' '') @ property @ '': '' @ v @ '';'')),
       diagramStyleFormatter = (\<lambda>diagramStyle diagramId. ''#'' @ diagramId @ '' { '' @ diagramStyle @ '' }'') \<rparr>"

definition example_options :: diagramOptions where
  "example_options =
     \<lparr> content = ''graph TD; cpu'', contentUrl = None, useBackground = False,
       nodeSize = \<lparr> minWidth = Fin 100, minHeight = Fin 30 \<rparr>, maxWidth = True,
       composites = None, style = [], legend = \<lparr> hideEmpty = True, hideZero = False \<rparr>,
       mermaidThemeVariablesDark =
         \<lparr> common = [], classDiagram = [], flowChart = [], sequenceDiagram = [],
           stateDiagram = [], userJourneyDiagram = [] \<rparr>,
       mermaidThemeVariablesLight =
         \<lparr> common = [], classDiagram = [], flowChart = [], sequenceDiagram = [],
           stateDiagram = [], userJourneyDiagram = [] \<rparr> \<rparr>"

definition example_indicator :: "string \<Rightarrow> metricIndicator" where
  "example_indicator n =
     \<lparr> text_of = ''42'', numeric = Fin 42, color = None, title = None, prefix = None,
       suffix = None, metricName = n, valueName = None, isComposite = False,
       originalName = None \<rparr>"


text \<open>
  An example host. The renderer counts its calls and rejects a definition that holds
  an injected \<open>themeVariables\<close> directive; \<open>failing_host\<close> rejects every definition. The
  network answers every request with status 404. \<open>$host\<close> is the one dashboard variable,
  and its value is \<open>db1\<close>.
\<close>

fun replace_var :: "string \<Rightarrow> string \<Rightarrow> string \<Rightarrow> string" where
  "replace_var v r [] = []"
| "replace_var v r (c # cs) =
     (if starts_with (c # cs) v \<and> v \<noteq> []
      then r @ replace_var v r (drop (length v) (c # cs))
      else c # replace_var v r cs)"

fun example_add :: "jsnum \<Rightarrow> jsnum \<Rightarrow> jsnum" where
  "example_add (Fin x) (Fin y) = Fin (x + y)"
| "example_add NaN b = NaN"
| "example_add a NaN = NaN"
| "example_add PosInf NegInf = NaN"
| "example_add NegInf PosInf = NaN"
| "example_add PosInf b = PosInf"
| "example_add NegInf b = NegInf"
| "example_add (Fin x) b = b"

definition example_host :: "nat host" where
  "example_host =
     \<lparr> initialize = (\<lambda>theme n. n),
       render = (\<lambda>n diagramId definition.
          (if includes_str definition ''themeVariables''
           then Inl (JsError ''Error'' ''Parse error'')
           else Inr \<lparr> svg = ''<svg></svg>'', bindFunctions = None \<rparr>, Suc n)),
       fetch = (\<lambda>url. Inr \<lparr> ok = False, status = Fin 404, statusText = ''Not Found'', body = [] \<rparr>),
       stringify = (\<lambda>vars. ''{}''),
       numberAdd = example_add \<rparr>"

definition failing_host :: "nat host" where
  "failing_host =
     example_host \<lparr> render := (\<lambda>n diagramId definition. (Inl (JsError ''Error'' ''Parse error''), Suc n)) \<rparr>"

definition example_props :: panelProps where
  "example_props =
     \<lparr> themeIsDark = False, panelId = Fin 7, panelOptions = example_options, panelData = [],
       replaceVariables = replace_var ''$host'' ''db1'' \<rparr>"

text \<open>The page: the container \<open>div\<close> of panel 7, still empty, is the first child of the body.\<close>

definition example_world :: "nat world" where
  "example_world =
     \<lparr> document = Elem ''body'' [] [Elem ''div'' [(''class'', ''diagram diagram-7'')] []],
       renderer = 0, renderCalls = [] \<rparr>"

text \<open>
  Two variants of the panel: one whose definition starts with a directive of its own and
  names the dashboard variable, one whose definition is remote.
\<close>

definition directive_props :: panelProps where
  "directive_props =
     example_props \<lparr> panelOptions := example_options \<lparr> content := ''%%{init: {}}%% graph TD; $host'' \<rparr> \<rparr>"

definition remote_props :: panelProps where
  "remote_props =
     example_props \<lparr> panelOptions := example_options \<lparr> contentUrl := Some ''https://example.org/d.mmd'' \<rparr> \<rparr>"

text \<open>A series of two value pairs; the value of the second is \<open>null\<close>.\<close>

definition gappy_series :: diagramSeriesModel where
  "gappy_series =
     \<lparr> label = ''cpu'', custom = None, info = None,
       data = [[Number (Fin 1), Number (Fin 5)], [Number (Fin 2), Null]], isVisible = True \<rparr>"

section \<open>The lookup order as the specification words it\<close>





text \<open>
  Two diagrams in the container of panel 7. In the first the node \<open>cpu\<close> is a group with a
  shape and a \<open>text\<close> label; in the second its label is a \<open>div\<close> in a \<open>foreignObject\<close>.
\<close>

definition text_label_doc :: node where
  "text_label_doc =
     Elem ''body'' []
       [Elem ''div'' [(''class'', ''diagram diagram-7'')]
          [Elem ''svg'' []
             [Elem ''g'' [(''class'', ''node''), (''data-id'', ''cpu'')]
                [Elem ''rect'' [] [], Elem ''text'' [] [Text ''cpu'']]]]]"


section \<open>Properties of the composite reduction\<close>







lemma js_total: "a \<noteq> NaN \<Longrightarrow> b \<noteq> NaN \<Longrightarrow> \<not> js_lt a b \<Longrightarrow> a = b \<or> js_lt b a"
  by (cases a; cases b) auto




lemma reduceComposites_single:
  "reduceComposites indicators [c] =
     (case reduceComposite indicators c of
        (None, indicators') \<Rightarrow> ([], indicators')
      | (Some w, indicators') \<Rightarrow> ([indicators' ! w], indicators'))"
  by (simp add: reduceComposites_def split: prod.splits option.splits)




lemma foldl_pick_all_nan:
  "\<forall>i \<in> set (k # ks). numeric (indicators ! i) = NaN \<Longrightarrow>
   foldl (pick indicators c) k ks = (if showLowestValue c then k else last (k # ks))"
  by (induction ks arbitrary: k) (auto simp: pick_def Let_def nan_to_zero_def)

text \<open>
  C3, as the code has it. When no candidate has a number, every comparison reads 0 against
  0 and \<open>currentIsLower\<close> is never true. With \<open>showLowestValue\<close> set the accumulator is
  kept and the first candidate wins; without it the branch \<open>currentIsLower ? prev : current\<close>
  takes the current candidate at every step and the last candidate wins.
\<close>

theorem reduceComposite_all_nan:
  assumes "candidates indicators c \<noteq> []"
    and "\<forall>i \<in> set (candidates indicators c). numeric (indicators ! i) = NaN"
  shows "fst (reduceComposite indicators c) =
           Some (if showLowestValue c then hd (candidates indicators c)
                 else last (candidates indicators c))"
proof -
  let ?cands = "candidates indicators c"
  have cs: "hd ?cands # tl ?cands = ?cands" using assms(1) by simp
  have "\<forall>i \<in> set (hd ?cands # tl ?cands). numeric (indicators ! i) = NaN"
    using assms(2) cs by simp
  from foldl_pick_all_nan[OF this, of c]
  have "winner indicators c ?cands = (if showLowestValue c then hd ?cands else last ?cands)"
    by (simp add: winner_def cs)
  then show ?thesis using assms(1) by (simp add: reduceComposite_def Let_def)
qed

lemma nan_candidates: "candidates nan_indicators (nan_composite low) = [0, 1]"
  by (simp add: candidates_def nan_indicators_def nan_composite_def ex_ind_def upt_rec)

text \<open>
  C3 as stated fails: two candidates without a number and \<open>showLowestValue = false\<close>
  resolve to the second candidate, \<open>b\<close>, not to the first.
\<close>

theorem all_nan_max_counterexample:
  "candidates nan_indicators (nan_composite False) = [0, 1] \<and>
   numeric (nan_indicators ! 0) = NaN \<and> numeric (nan_indicators ! 1) = NaN \<and>
   fst (reduceComposite nan_indicators (nan_composite False)) = Some 1 \<and>
   map originalName (fst (reduceComposites nan_indicators [nan_composite False])) = [Some ''b'']"
  by (simp add: reduceComposites_single reduceComposite_def nan_candidates winner_def pick_def Let_def nan_to_zero_def)
     (simp add: nan_indicators_def nan_composite_def ex_ind_def)

theorem reduceComposite_all_nan_witness:
  "candidates nan_indicators (nan_composite True) \<noteq> [] \<and>
   map (\<lambda>i. numeric (nan_indicators ! i)) (candidates nan_indicators (nan_composite True)) =
     [NaN, NaN] \<and>
   fst (reduceComposite nan_indicators (nan_composite True)) = Some 0 \<and>
   fst (reduceComposite nan_indicators (nan_composite False)) = Some 1"
proof -
  have h1: "candidates nan_indicators (nan_composite low) \<noteq> []" for low
    by (simp add: nan_candidates)
  have h2: "\<forall>i \<in> set (candidates nan_indicators (nan_composite low)). numeric (nan_indicators ! i) = NaN" for low
    by (simp add: nan_candidates) (simp add: nan_indicators_def ex_ind_def)
  from reduceComposite_all_nan[OF h1 h2, of True] reduceComposite_all_nan[OF h1 h2, of False] h1 h2
  show ?thesis
    by (simp add: nan_candidates) (simp add: nan_composite_def nan_indicators_def ex_ind_def)
qed
section \<open>The legend hide rule\<close>

lemma foldl_and_all: "foldl (\<lambda>acc x. acc \<and> P x) b xs = (b \<and> list_all P xs)"
  by (induction xs arbitrary: b) auto

lemma shouldHideLegendItem_iff:
  "shouldHideLegendItem H seriesData he hz =
     ((he \<and> list_ex (\<lambda>current. second current = Some Null) seriesData) \<or>
      (hz \<and> foldl (\<lambda>acc current. numberAdd H acc (or_zero (second current))) (Fin 0) seriesData = Fin 0))"
  by (simp add: shouldHideLegendItem_def Let_def foldl_and_all list_ex_iff list_all_iff)

text \<open>
  C9 at a series of two value pairs, the second of which is \<open>null\<close>, with \<open>hideEmpty\<close> set and
  \<open>hideZero\<close> not: the first value is 5, so not every value is \<open>null\<close>, and the series is
  hidden all the same and gets no legend item. \<open>isNullOnlySeries\<close> is true as soon as one
  value is \<open>null\<close>.
\<close>

theorem legend_hides_series_with_one_null:
  "data gappy_series = [[Number (Fin 1), Number (Fin 5)], [Number (Fin 2), Null]] \<and>
   second [Number (Fin 1), Number (Fin 5)] = Some (Number (Fin 5)) \<and>
   hideEmpty (legend example_options) \<and> \<not> hideZero (legend example_options) \<and>
   shouldHideLegendItem H (data gappy_series) True False \<and>
   getLegendItems H (example_props \<lparr> panelData := [gappy_series] \<rparr>) = []"
  by (simp add: shouldHideLegendItem_def getLegendItems_def gappy_series_def example_props_def
        example_options_def)

section \<open>Attributes under updates of the document\<close>





lemma setAttribute_children [simp]: "childNodes (setAttribute a v n) = childNodes n"
  by (cases n) auto

lemma setAttribute_tag [simp]: "tagName (setAttribute a v n) = tagName n"
  by (cases n) auto






section \<open>The resize helper\<close>



lemma grown_unparsable: "grown (Some ''auto'') (Fin 100) = NaN"
  by (simp add: grown_def js_max_def parseInt10_def Let_def is_js_space_def is_digit_def starts_with_def decimal_def digit_value_def)






lemma parse_150_7: "parseInt10 ''150.7'' = Fin 150"
  by (simp add: parseInt10_def Let_def is_js_space_def is_digit_def starts_with_def decimal_def digit_value_def)




section \<open>The render pass of the controller\<close>

lemma renderInto_calls:
  "renderCalls (snd (renderInto B H container diagramId defn w)) =
     renderCalls w @ [(diagramId, defn)]"
  by (simp add: renderInto_def Let_def split: prod.splits sum.splits option.splits)

lemma renderInto_throws:
  "render H (renderer w) diagramId defn = (Inl e, rs) \<Longrightarrow>
   renderInto B H container diagramId defn w =
     (Some e, w \<lparr> renderer := rs, renderCalls := renderCalls w @ [(diagramId, defn)] \<rparr>)"
  by (simp add: renderInto_def Let_def)

text \<open>The calls of the renderer that one pass of \<open>initializeMermaid\<close> adds.\<close>

lemma initializeMermaid_calls:
  assumes "loadDiagramDefinition B H props = Inr defn"
  shows "renderCalls (snd (initializeMermaid B H props (Some container) w)) =
           renderCalls w @
           [(''diagram-'' @ numberToString B (panelId props),
             replaceVariables props (contentProcessor H props defn))] @
           (case fst (renderInto B H container (''diagram-'' @ numberToString B (panelId props))
                        (replaceVariables props (contentProcessor H props defn))
                        (w \<lparr> renderer := initialize H (if themeIsDark props then ''dark'' else ''base'')
                                            (renderer w) \<rparr>)) of
              None \<Rightarrow> []
            | Some err \<Rightarrow> [(''diagram-'' @ numberToString B (panelId props), defn)])"
proof -
  let ?w0 = "w \<lparr> renderer := initialize H (if themeIsDark props then ''dark'' else ''base'') (renderer w) \<rparr>"
  let ?id = "''diagram-'' @ numberToString B (panelId props)"
  let ?t = "replaceVariables props (contentProcessor H props defn)"
  obtain e1 w1 where a1: "renderInto B H container ?id ?t ?w0 = (e1, w1)" by fastforce
  have c1: "renderCalls w1 = renderCalls w @ [(?id, ?t)]"
    using renderInto_calls[of B H container ?id ?t ?w0] a1 by simp
  obtain e2 w2 where a2: "renderInto B H container ?id defn w1 = (e2, w2)" by fastforce
  have c2: "renderCalls w2 = renderCalls w1 @ [(?id, defn)]"
    using renderInto_calls[of B H container ?id defn w1] a2 by simp
  show ?thesis
    using assms a1 a2 c1 c2
    by (cases e1; cases e2)
       (simp_all add: initializeMermaid_def Let_def split: prod.splits option.splits)
qed

text \<open>
  C5 at a remote definition whose fetch answers with a status that is not a success. The
  error is raised and ends the pass, but \<open>await loadDiagramDefinition()\<close> stands before the
  \<open>try\<close>: the promise of \<open>initializeMermaid\<close> is rejected with the error, no render is
  attempted, and the document, the container with it, is left as it was. No error markup
  is written.
\<close>

theorem fetch_failure_rejects_without_markup:
  assumes "truthy (contentUrl (panelOptions props)) = Some url"
    and "fetch H (replaceVariables props url) = Inr resp"
    and "\<not> ok resp"
  shows "initializeMermaid B H props (Some container) w =
           (Some (JsError ''Error''
                    (''Failed to fetch diagram definition: '' @ numberToString B (status resp) @
                     '' '' @ statusText resp)),
            w \<lparr> renderer := initialize H (if themeIsDark props then ''dark'' else ''base'')
                                (renderer w) \<rparr>)"
  using assms
  by (simp add: initializeMermaid_def loadDiagramDefinition_def getRemoteDiagramDefinition_def Let_def)

lemma show_404: "show_number (Fin 404) = ''404''"
  by (simp add: show_nat.simps show_digit_def)

lemma show_7: "show_number (Fin 7) = ''7''"
  by (simp add: show_nat.simps show_digit_def)

theorem fetch_failure_rejects_without_markup_witness:
  "truthy (contentUrl (panelOptions remote_props)) = Some ''https://example.org/d.mmd'' \<and>
   fetch example_host (replaceVariables remote_props ''https://example.org/d.mmd'') =
     Inr \<lparr> ok = False, status = Fin 404, statusText = ''Not Found'', body = [] \<rparr> \<and>
   initializeMermaid example_browser example_host remote_props (Some [0]) example_world =
     (Some (JsError ''Error'' ''Failed to fetch diagram definition: 404 Not Found''), example_world)"
proof -
  have u: "truthy (contentUrl (panelOptions remote_props)) = Some ''https://example.org/d.mmd''"
    by (simp add: remote_props_def example_props_def example_options_def)
  have f: "fetch example_host (replaceVariables remote_props ''https://example.org/d.mmd'') =
             Inr \<lparr> ok = False, status = Fin 404, statusText = ''Not Found'', body = [] \<rparr>"
    by (simp add: example_host_def)
  have n: "\<not> ok \<lparr> ok = False, status = Fin 404, statusText = ''Not Found'', body = [] \<rparr>"
    by simp
  have i: "example_world \<lparr> renderer := initialize example_host
              (if themeIsDark remote_props then ''dark'' else ''base'') (renderer example_world) \<rparr>
           = example_world"
    by (simp add: example_host_def example_world_def)
  have s: "numberToString example_browser (Fin 404) = ''404''"
    using show_404 by (simp add: example_browser_def)
  from fetch_failure_rejects_without_markup[OF u f n, of example_browser "[0]" example_world]
  show ?thesis using u f by (simp only: i) (simp add: s)
qed

text \<open>
  C6. When the primary render, of the interpolated and theme-injected definition, throws,
  the pass makes exactly two calls of the renderer: the primary one, and one with the same
  diagram id and the definition as it was loaded. When this second call throws as well,
  the pass ends without a further call: the promise is fulfilled, and the container's content
  is the error markup, which holds the string conversion of the error caught.
\<close>

theorem primary_failure_one_fallback:
  assumes load: "loadDiagramDefinition B H props = Inr defn"
    and diagramId: "diagramId = ''diagram-'' @ numberToString B (panelId props)"
    and primary:
      "render H (initialize H (if themeIsDark props then ''dark'' else ''base'') (renderer w))
         diagramId (replaceVariables props (contentProcessor H props defn)) = (Inl e1, rs1)"
  shows "renderCalls (snd (initializeMermaid B H props (Some container) w)) =
           renderCalls w @
           [(diagramId, replaceVariables props (contentProcessor H props defn)), (diagramId, defn)] \<and>
         (\<forall>e2 rs2.
            render H rs1 diagramId defn = (Inl e2, rs2) \<longrightarrow>
            initializeMermaid B H props (Some container) w =
              (None,
               \<lparr> document = update_at (replaceChildren (parseFragment B (errorMarkup e2))) container
                               (document w),
                 renderer = rs2,
                 renderCalls = renderCalls w @
                   [(diagramId, replaceVariables props (contentProcessor H props defn)),
                    (diagramId, defn)] \<rparr>))"
proof -
  let ?w0 = "w \<lparr> renderer := initialize H (if themeIsDark props then ''dark'' else ''base'') (renderer w) \<rparr>"
  let ?t = "replaceVariables props (contentProcessor H props defn)"
  have p: "render H (renderer ?w0) diagramId ?t = (Inl e1, rs1)"
    using primary by simp
  have a1: "renderInto B H container diagramId ?t ?w0 =
              (Some e1, ?w0 \<lparr> renderer := rs1, renderCalls := renderCalls ?w0 @ [(diagramId, ?t)] \<rparr>)"
    using p by (rule renderInto_throws)
  have calls: "renderCalls (snd (initializeMermaid B H props (Some container) w)) =
                 renderCalls w @ [(diagramId, ?t), (diagramId, defn)]"
    using initializeMermaid_calls[OF load, of container w] a1 diagramId by simp
  have fb: "initializeMermaid B H props (Some container) w =
              (None,
               \<lparr> document = update_at (replaceChildren (parseFragment B (errorMarkup e2))) container
                               (document w),
                 renderer = rs2,
                 renderCalls = renderCalls w @ [(diagramId, ?t), (diagramId, defn)] \<rparr>)"
    if second: "render H rs1 diagramId defn = (Inl e2, rs2)" for e2 rs2
  proof -
    let ?w1 = "?w0 \<lparr> renderer := rs1, renderCalls := renderCalls ?w0 @ [(diagramId, ?t)] \<rparr>"
    have "render H (renderer ?w1) diagramId defn = (Inl e2, rs2)" using second by simp
    then have a2: "renderInto B H container diagramId defn ?w1 =
              (Some e2, ?w1 \<lparr> renderer := rs2, renderCalls := renderCalls ?w1 @ [(diagramId, defn)] \<rparr>)"
      by (rule renderInto_throws)
    show ?thesis
      using load a1 a2 diagramId by (simp add: initializeMermaid_def Let_def)
  qed
  from calls fb show ?thesis by blast
qed

lemma example_load: "loadDiagramDefinition B H example_props = Inr ''graph TD; cpu''"
  by (simp add: loadDiagramDefinition_def example_props_def example_options_def)

lemma replace_var_plain: "replace_var ''$host'' ''db1'' ''graph TD; cpu'' = ''graph TD; cpu''"
  by (simp add: starts_with_def)

theorem primary_failure_one_fallback_witness:
  "loadDiagramDefinition example_browser failing_host example_props = Inr ''graph TD; cpu'' \<and>
   fst (render failing_host 0 ''diagram-7''
          (replaceVariables example_props (contentProcessor failing_host example_props ''graph TD; cpu'')))
     = Inl (JsError ''Error'' ''Parse error'') \<and>
   initializeMermaid example_browser failing_host example_props (Some [0]) example_world =
     (None,
      \<lparr> document =
          Elem ''body'' []
            [Elem ''div'' [(''class'', ''diagram diagram-7'')]
               [Elem ''div'' []
                  [Elem ''p'' [] [Text ''Error rendering diagram. Check the diagram definition''],
                   Elem ''p'' [] [Text ''Error: Parse error'']]]],
        renderer = 2,
        renderCalls =
          [(''diagram-7'',
            replaceVariables example_props (contentProcessor failing_host example_props ''graph TD; cpu'')),
           (''diagram-7'', ''graph TD; cpu'')] \<rparr>)"
proof -
  let ?t = "replaceVariables example_props (contentProcessor failing_host example_props ''graph TD; cpu'')"
  have id7: "''diagram-7'' = ''diagram-'' @ numberToString example_browser (panelId example_props)"
    using show_7 by (simp add: example_browser_def example_props_def)
  have r1: "render failing_host
              (initialize failing_host (if themeIsDark example_props then ''dark'' else ''base'')
                 (renderer example_world))
              ''diagram-7'' ?t = (Inl (JsError ''Error'' ''Parse error''), 1)"
    by (simp add: failing_host_def example_host_def example_world_def)
  have r2: "render failing_host 1 ''diagram-7'' ''graph TD; cpu'' = (Inl (JsError ''Error'' ''Parse error''), 2)"
    by (simp add: failing_host_def example_host_def)
  have m: "parseFragment example_browser (errorMarkup (JsError ''Error'' ''Parse error'')) =
             [Elem ''div'' []
                  [Elem ''p'' [] [Text ''Error rendering diagram. Check the diagram definition''],
                   Elem ''p'' [] [Text ''Error: Parse error'']]]"
    by (simp add: example_browser_def errorMarkup_def example_parseFragment_def)
  from primary_failure_one_fallback[OF example_load id7 r1, of "[0]"] r2
  have "initializeMermaid example_browser failing_host example_props (Some [0]) example_world =
     (None,
      \<lparr> document = update_at (replaceChildren (parseFragment example_browser
                        (errorMarkup (JsError ''Error'' ''Parse error'')))) [0] (document example_world),
        renderer = 2,
        renderCalls = renderCalls example_world @ [(''diagram-7'', ?t), (''diagram-7'', ''graph TD; cpu'')] \<rparr>)"
    by blast
  then show ?thesis
    using example_load[of example_browser failing_host]
    by (simp add: m) (simp add: example_world_def failing_host_def example_host_def)
qed

text \<open>
  C4, as the code has it. For a definition with a directive block, \<open>contentProcessor\<close>
  returns the definition as it is: nothing is merged and nothing prepended. The controller
  then applies \<open>replaceVariables\<close> to it, and that text goes to the primary render; only the
  fallback render, if there is one, gets the definition itself.
\<close>

theorem init_block_left_to_interpolation:
  assumes load: "loadDiagramDefinition B H props = Inr defn"
    and block: "init_block_match defn"
    and diagramId: "diagramId = ''diagram-'' @ numberToString B (panelId props)"
  shows "contentProcessor H props defn = defn \<and>
         (renderCalls (snd (initializeMermaid B H props (Some container) w)) =
            renderCalls w @ [(diagramId, replaceVariables props defn)] \<or>
          renderCalls (snd (initializeMermaid B H props (Some container) w)) =
            renderCalls w @ [(diagramId, replaceVariables props defn), (diagramId, defn)])"
proof -
  have c: "contentProcessor H props defn = defn"
    using block by (simp add: contentProcessor_def)
  show ?thesis
    using initializeMermaid_calls[OF load, of container w] c diagramId
    by (auto split: option.splits)
qed

lemma directive_load:
  "loadDiagramDefinition B H directive_props = Inr ''%%{init: {}}%% graph TD; $host''"
  by (simp add: loadDiagramDefinition_def directive_props_def example_props_def example_options_def)

lemma directive_match: "init_block_match ''%%{init: {}}%% graph TD; $host''"
  by (simp add: starts_with_def)

lemma directive_replaced:
  "replaceVariables directive_props ''%%{init: {}}%% graph TD; $host'' = ''%%{init: {}}%% graph TD; db1''"
  by (simp add: directive_props_def example_props_def starts_with_def)

lemma directive_id: "''diagram-7'' = ''diagram-'' @ numberToString example_browser (panelId directive_props)"
  using show_7 by (simp add: example_browser_def directive_props_def example_props_def)

lemma directive_primary_ok:
  "fst (renderInto example_browser example_host [0] ''diagram-7'' ''%%{init: {}}%% graph TD; db1''
          (example_world \<lparr> renderer := initialize example_host
              (if themeIsDark directive_props then ''dark'' else ''base'') (renderer example_world) \<rparr>)) = None"
  by (simp add: renderInto_def example_host_def Let_def starts_with_def)

text \<open>
  C4 as stated fails: a definition with a directive block that names the dashboard variable
  \<open>$host\<close> reaches the renderer with the variable's value in its place.
\<close>

theorem init_block_interpolated_counterexample:
  "content (panelOptions directive_props) = ''%%{init: {}}%% graph TD; $host'' \<and>
   init_block_match (content (panelOptions directive_props)) \<and>
   renderCalls (snd (initializeMermaid example_browser example_host directive_props (Some [0]) example_world)) =
     [(''diagram-7'', ''%%{init: {}}%% graph TD; db1'')]"
proof -
  have c: "content (panelOptions directive_props) = ''%%{init: {}}%% graph TD; $host''"
    by (simp add: directive_props_def example_options_def)
  have p: "contentProcessor example_host directive_props ''%%{init: {}}%% graph TD; $host'' =
             ''%%{init: {}}%% graph TD; $host''"
    using directive_match by (simp add: contentProcessor_def)
  have "renderCalls (snd (initializeMermaid example_browser example_host directive_props (Some [0]) example_world)) =
     [(''diagram-7'', ''%%{init: {}}%% graph TD; db1'')]"
    using initializeMermaid_calls[OF directive_load, of example_browser example_host "[0]" example_world]
    by (simp only: p directive_replaced directive_id[symmetric] directive_primary_ok)
       (simp add: example_world_def)
  with c directive_match show ?thesis by simp
qed

theorem init_block_left_to_interpolation_witness:
  "loadDiagramDefinition example_browser failing_host directive_props =
     Inr ''%%{init: {}}%% graph TD; $host'' \<and>
   init_block_match ''%%{init: {}}%% graph TD; $host'' \<and>
   contentProcessor failing_host directive_props ''%%{init: {}}%% graph TD; $host'' =
     ''%%{init: {}}%% graph TD; $host'' \<and>
   renderCalls (snd (initializeMermaid example_browser failing_host directive_props (Some [0]) example_world)) =
     [(''diagram-7'', ''%%{init: {}}%% graph TD; db1''),
      (''diagram-7'', ''%%{init: {}}%% graph TD; $host'')]"
proof -
  have one: "renderCalls (snd (initializeMermaid example_browser failing_host directive_props (Some [0]) example_world))
               \<noteq> renderCalls example_world @ [(''diagram-7'', ''%%{init: {}}%% graph TD; db1'')]"
    using initializeMermaid_calls[OF directive_load, of example_browser failing_host "[0]" example_world]
    by (simp add: renderInto_def failing_host_def example_host_def Let_def)
  from init_block_left_to_interpolation[OF directive_load directive_match directive_id, of failing_host "[0]" example_world]
       one
  show ?thesis
    using directive_load[of example_browser failing_host] directive_match
    by (simp add: directive_replaced) (simp add: example_world_def)
qed

section \<open>The style resolver\<close>





lemma style_set_children [simp]: "childNodes (style_set B pr v n) = childNodes n"
  by (simp add: style_set_def split: option.splits)

lemma style_set_tag [simp]: "tagName (style_set B pr v n) = tagName n"
  by (simp add: style_set_def split: option.splits)

lemma classList_add_children [simp]: "childNodes (classList_add c n) = childNodes n"
  by (simp add: classList_add_def)

lemma classList_add_tag [simp]: "tagName (classList_add c n) = tagName n"
  by (simp add: classList_add_def)







lemma on_each_single [simp]: "on_each f [p] doc = update_at f p doc"
  by (simp add: on_each_def)

lemma on_each_nil [simp]: "on_each f [] doc = doc"
  by (simp add: on_each_def)



lemmas dom_eval =
  descendants_def querySelector_def querySelectorAll_def holds_def is_tag_def is_element_def
  has_class_def classList_def getAttribute_def attr_at_def is_space_def is_shape_def








lemma unmatched_name_skipped:
  assumes \<open>parseSelector B (''[data-id="'' @ metricName indicator @ ''"]'') = Some m\<close>
    and "find (\<lambda>q. holds doc is_element q \<and> m doc q) (descendants doc container) = None"
    and "selectElementByEdgeLabel doc container (metricName indicator) = []"
    and "selectDivElementByAlias doc container (metricName indicator) = []"
    and "selectTextElementByAlias doc container (metricName indicator) = []"
    and "selectTextElementContainingAlias doc container (metricName indicator) = []"
  shows "processDiagramSeriesModel B container indicator options doc = (None, doc)"
  using assms by (simp add: processDiagramSeriesModel_def selectElementById_def Let_def)

text \<open>
  C7 at a metric name that makes \<open>[data-id="<name>"]\<close> a text the browser rejects, such as
  the series name \<open>up{job="api"}\<close>: the first lookup throws a \<open>SyntaxError\<close>, the other four
  are never tried, and the error leaves \<open>processDiagramSeriesModel\<close>. No element matches the
  name under any strategy, and the indicator is not skipped in silence. For a name whose
  selector is accepted, \<open>unmatched_name_skipped\<close> gives what the claim says.
\<close>

theorem rejected_selector_throws:
  assumes \<open>parseSelector B (''[data-id="'' @ metricName indicator @ ''"]'') = None\<close>
  shows \<open>processDiagramSeriesModel B container indicator options doc =
           (Some (JsError ''SyntaxError''
                    (''[data-id="'' @ metricName indicator @ ''"]'' @ '' is not a valid selector'')),
            doc)\<close>
  using assms by (simp add: processDiagramSeriesModel_def selectElementById_def Let_def)

theorem rejected_selector_throws_witness:
  \<open>parseSelector example_browser (''[data-id="'' @ ''up{job="api"}'' @ ''"]'') = None \<and>
   selectElementByEdgeLabel text_label_doc [0, 0] ''up{job="api"}'' = [] \<and>
   selectDivElementByAlias text_label_doc [0, 0] ''up{job="api"}'' = [] \<and>
   selectTextElementByAlias text_label_doc [0, 0] ''up{job="api"}'' = [] \<and>
   selectTextElementContainingAlias text_label_doc [0, 0] ''up{job="api"}'' = [] \<and>
   processDiagramSeriesModel example_browser [0, 0] (example_indicator ''up{job="api"}'')
       example_options text_label_doc =
     (Some (JsError ''SyntaxError'' ''[data-id="up{job="api"}"] is not a valid selector''),
      text_label_doc)\<close>
proof -
  have n: \<open>metricName (example_indicator ''up{job="api"}'') = ''up{job="api"}''\<close>
    by (simp add: example_indicator_def)
  have p: \<open>parseSelector example_browser
             (''[data-id="'' @ metricName (example_indicator ''up{job="api"}'') @ ''"]'') = None\<close>
    by (simp add: example_browser_def example_parseSelector_def Let_def plain_value_def n)
  have s: \<open>selectElementByEdgeLabel text_label_doc [0, 0] ''up{job="api"}'' = []\<close>
      \<open>selectDivElementByAlias text_label_doc [0, 0] ''up{job="api"}'' = []\<close>
      \<open>selectTextElementByAlias text_label_doc [0, 0] ''up{job="api"}'' = []\<close>
      \<open>selectTextElementContainingAlias text_label_doc [0, 0] ''up{job="api"}'' = []\<close>
    by (simp_all add: selectElementByEdgeLabel_def selectDivElementByAlias_def
          selectTextElementByAlias_def selectTextElementContainingAlias_def
          text_label_doc_def dom_eval starts_with_def)
  from rejected_selector_throws[OF p, of "[0, 0]" example_options text_label_doc] p s
  show ?thesis by (simp add: n)
qed



end
